theory Spec2Isabelle
  imports Main
begin

section \<open>JavaScript values, errors and promises\<close>

text \<open>
  The store of \<^verbatim>\<open>session-stores/local-storage.js\<close> handles session data as
  untyped JavaScript values. The values of the model are the JSON-shaped ones (numbers
  are the integral ones), \<^verbatim>\<open>undefined\<close>, which \<^verbatim>\<open>persist\<close> may receive, and
  \<^verbatim>\<open>BigInt\<close>, a value that \<^verbatim>\<open>JSON.stringify\<close> refuses. An object keeps its
  properties in insertion order.
\<close>

datatype jsval =
    JUndefined
  | JNull
  | JBool bool
  | JNum int
  | JBigInt int
  | JStr string
  | JArr "jsval list"
  | JObj "(string \<times> jsval) list"

datatype jserror = SyntaxError | TypeError | QuotaExceededError

text \<open>
  A method of the store either throws (\<open>Inl\<close>) or returns a promise (\<open>Inr\<close>). The file
  builds its promises with \<^verbatim>\<open>RSVP.resolve\<close> only; \<open>Rejected\<close> is the other state a
  promise can be in.
\<close>

datatype promise = Resolved jsval | Rejected jserror

text \<open>\<^verbatim>\<open>ToBoolean\<close>: the falsy values are undefined, null, false, 0, 0n and the empty string.\<close>

fun truthy :: "jsval \<Rightarrow> bool" where
  "truthy JUndefined = False"
| "truthy JNull = False"
| "truthy (JBool b) = b"
| "truthy (JNum n) = (n \<noteq> 0)"
| "truthy (JBigInt n) = (n \<noteq> 0)"
| "truthy (JStr s) = (s \<noteq> [])"
| "truthy (JArr xs) = True"
| "truthy (JObj ms) = True"

text \<open>The idiom \<^verbatim>\<open>v || {}\<close> of \<^verbatim>\<open>persist\<close> and \<^verbatim>\<open>restore\<close>.\<close>

definition or_empty :: "jsval \<Rightarrow> jsval" where
  "or_empty v = (if truthy v then v else JObj [])"

section \<open>The host\<close>

text \<open>
  What the browser supplies and the file only calls is a parameter of the model:
  \<^item> \<open>JSON_stringify\<close>: \<^verbatim>\<open>JSON.stringify\<close>, which throws, returns \<^verbatim>\<open>undefined\<close>
    (\<open>None\<close>) or returns text;
  \<^item> \<open>JSON_parse\<close>: \<^verbatim>\<open>JSON.parse\<close>, which throws on malformed text;
  \<^item> \<open>storage_accepts\<close>: whether \<^verbatim>\<open>localStorage.setItem\<close> takes a write, given the
    present contents (it throws when the quota is exceeded);
  \<^item> \<open>isFastBoot_owner\<close>: the value of \<^verbatim>\<open>isFastBoot(getOwner(this))\<close>.
\<close>

record host =
  JSON_stringify :: "jsval \<Rightarrow> jserror + string option"
  JSON_parse :: "string \<Rightarrow> jserror + jsval"
  storage_accepts :: "(string \<rightharpoonup> string) \<Rightarrow> string \<Rightarrow> string \<Rightarrow> bool"
  isFastBoot_owner :: bool

text \<open>
  The window: the contents of \<^verbatim>\<open>localStorage\<close>, the listeners registered on it, and
  a log of every call of \<^verbatim>\<open>localStorage\<close> and of \<^verbatim>\<open>window\<close> in the order made.
  The hosts of the model are those that have a \<^verbatim>\<open>localStorage\<close>; where the global is
  missing, \<^verbatim>\<open>persist\<close>, \<^verbatim>\<open>restore\<close> and \<^verbatim>\<open>clear\<close> throw a ReferenceError at its
  first mention.
\<close>

datatype hostcall =
    GetItem string
  | SetItem string string
  | RemoveItem string
  | AddEventListener string "nat option"
  | RemoveEventListener string "nat option"

record world =
  storage :: "string \<rightharpoonup> string"
  listeners :: "(string \<times> nat) list"
  calls :: "hostcall list"

definition localStorage_getItem :: "world \<Rightarrow> string \<Rightarrow> string option \<times> world" where
  "localStorage_getItem w k = (storage w k, w\<lparr>calls := calls w @ [GetItem k]\<rparr>)"

definition localStorage_setItem ::
  "host \<Rightarrow> world \<Rightarrow> string \<Rightarrow> string \<Rightarrow> (jserror + unit) \<times> world" where
  "localStorage_setItem h w k t =
     (let w1 = w\<lparr>calls := calls w @ [SetItem k t]\<rparr>
      in if storage_accepts h (storage w) k t
         then (Inr (), w1\<lparr>storage := (storage w)(k \<mapsto> t)\<rparr>)
         else (Inl QuotaExceededError, w1))"

definition localStorage_removeItem :: "world \<Rightarrow> string \<Rightarrow> world" where
  "localStorage_removeItem w k =
     w\<lparr>storage := (storage w)(k := None), calls := calls w @ [RemoveItem k]\<rparr>"

text \<open>
  A listener is a function object, known by its identity (\<open>None\<close> when the argument is
  undefined, which the window ignores). The window keeps one entry for each pair of event
  type and listener.
\<close>

definition window_addEventListener :: "world \<Rightarrow> string \<Rightarrow> nat option \<Rightarrow> world" where
  "window_addEventListener w ty f =
     w\<lparr>listeners := (case f of
                       None \<Rightarrow> listeners w
                     | Some i \<Rightarrow> if (ty, i) \<in> set (listeners w) then listeners w
                                else listeners w @ [(ty, i)]),
       calls := calls w @ [AddEventListener ty f]\<rparr>"

definition window_removeEventListener :: "world \<Rightarrow> string \<Rightarrow> nat option \<Rightarrow> world" where
  "window_removeEventListener w ty f =
     w\<lparr>listeners := (case f of
                       None \<Rightarrow> listeners w
                     | Some i \<Rightarrow> removeAll (ty, i) (listeners w)),
       calls := calls w @ [RemoveEventListener ty f]\<rparr>"

section \<open>The store\<close>

text \<open>
  The instance: its \<^verbatim>\<open>key\<close>, the own property \<^verbatim>\<open>_isFastBoot\<close> (\<open>None\<close> while the
  object has none), \<^verbatim>\<open>_boundHandler\<close>, the snapshot \<^verbatim>\<open>_lastData\<close> (\<open>JUndefined\<close>
  while never assigned) and the events handed to \<^verbatim>\<open>trigger\<close>, oldest first.
\<close>

record store =
  key :: string
  isFastBoot :: "bool option"
  boundHandler :: "nat option"
  lastData :: jsval
  triggered :: "(string \<times> jsval) list"

definition default_key :: string where
  "default_key = ''ember_simple_auth-session''"

text \<open>\<^verbatim>\<open>!this.get('_isFastBoot')\<close>: a missing property reads as undefined, which is falsy.\<close>

definition not_isFastBoot :: "store \<Rightarrow> bool" where
  "not_isFastBoot s = (case isFastBoot s of None \<Rightarrow> True | Some b \<Rightarrow> \<not> b)"

text \<open>
  \<^verbatim>\<open>init\<close>, from the store as the base class's \<^verbatim>\<open>init\<close> left it (\<^verbatim>\<open>_super\<close> is not
  of this file). \<open>f\<close> is the function object that \<^verbatim>\<open>bind\<close> returns.
\<close>

definition init :: "host \<Rightarrow> nat \<Rightarrow> store \<Rightarrow> world \<Rightarrow> store \<times> world" where
  "init h f s w =
     (let s1 = s\<lparr>isFastBoot :=
                   Some (case isFastBoot s of Some b \<Rightarrow> b | None \<Rightarrow> isFastBoot_owner h)\<rparr>;
          s2 = s1\<lparr>boundHandler := Some f\<rparr>
      in if not_isFastBoot s2
         then (s2, window_addEventListener w ''storage'' (boundHandler s2))
         else (s2, w))"

definition willDestroy :: "store \<Rightarrow> world \<Rightarrow> world" where
  "willDestroy s w =
     (if not_isFastBoot s
      then window_removeEventListener w ''storage'' (boundHandler s)
      else w)"

text \<open>
  \<^verbatim>\<open>persist\<close>. The snapshot is assigned first. \<^verbatim>\<open>setItem\<close> turns its argument into a
  string, so an undefined serialization would be stored as the text \<^verbatim>\<open>undefined\<close>.
  \<^verbatim>\<open>RSVP.resolve()\<close> resolves with undefined.
\<close>

definition persist ::
  "host \<Rightarrow> store \<Rightarrow> world \<Rightarrow> jsval \<Rightarrow> (jserror + promise) \<times> store \<times> world" where
  "persist h s w data =
     (let s1 = s\<lparr>lastData := data\<rparr>
      in case JSON_stringify h (or_empty data) of
           Inl e \<Rightarrow> (Inl e, s1, w)
         | Inr r \<Rightarrow>
             (let text = (case r of None \<Rightarrow> ''undefined'' | Some t \<Rightarrow> t)
              in case localStorage_setItem h w (key s1) text of
                   (Inl e, w1) \<Rightarrow> (Inl e, s1, w1)
                 | (Inr u, w1) \<Rightarrow> (Inr (Resolved JUndefined), s1, w1)))"

text \<open>
  \<^verbatim>\<open>restore\<close>. \<^verbatim>\<open>getItem\<close> gives null for an absent slot, and \<^verbatim>\<open>JSON.parse\<close> turns
  its argument into a string first, so it is handed the text \<^verbatim>\<open>null\<close> then. The
  argument of \<^verbatim>\<open>RSVP.resolve\<close> is evaluated before the call: when \<^verbatim>\<open>JSON.parse\<close>
  throws, \<^verbatim>\<open>restore\<close> throws and no promise is made.
\<close>

definition restore :: "host \<Rightarrow> store \<Rightarrow> world \<Rightarrow> (jserror + promise) \<times> store \<times> world" where
  "restore h s w =
     (case localStorage_getItem w (key s) of
        (data, w1) \<Rightarrow>
          (case JSON_parse h (case data of None \<Rightarrow> ''null'' | Some t \<Rightarrow> t) of
             Inl e \<Rightarrow> (Inl e, s, w1)
           | Inr v \<Rightarrow> (Inr (Resolved (or_empty v)), s, w1)))"

definition clear :: "store \<Rightarrow> world \<Rightarrow> (jserror + promise) \<times> store \<times> world" where
  "clear s w =
     (let w1 = localStorage_removeItem w (key s);
          s1 = s\<lparr>lastData := JObj []\<rparr>
      in (Inr (Resolved JUndefined), s1, w1))"

text \<open>
  Modelled from the spec: \<^verbatim>\<open>objectsAreEqual\<close> of \<^verbatim>\<open>utils/objects-are-equal\<close>, which
  the file imports. The spec calls it a deep, structural equality check that is
  insensitive to the order of a mapping's keys: two objects are equal when they have the
  same keys and equal values under each key, two arrays when they are equal element by
  element, and two other values when they are the same value.
\<close>

primrec objectsAreEqual :: "jsval \<Rightarrow> jsval \<Rightarrow> bool" where
  "objectsAreEqual JUndefined b = (b = JUndefined)"
| "objectsAreEqual JNull b = (b = JNull)"
| "objectsAreEqual (JBool x) b = (b = JBool x)"
| "objectsAreEqual (JNum x) b = (b = JNum x)"
| "objectsAreEqual (JBigInt x) b = (b = JBigInt x)"
| "objectsAreEqual (JStr x) b = (b = JStr x)"
| "objectsAreEqual (JArr xs) b =
     (case b of
        JArr ys \<Rightarrow> list_all2 (\<lambda>p y. p y) (map objectsAreEqual xs) ys
      | _ \<Rightarrow> False)"
| "objectsAreEqual (JObj ms) b =
     (case b of
        JObj ns \<Rightarrow>
          list_all (\<lambda>(k, p). case map_of ns k of None \<Rightarrow> False | Some v \<Rightarrow> p v)
            (map (map_prod id objectsAreEqual) ms)
          \<and> list_all (\<lambda>k. k \<in> set (map fst ms)) (map fst ns)
      | _ \<Rightarrow> False)"

text \<open>
  The storage event; the handler reads its \<^verbatim>\<open>key\<close> only, which is null (\<open>None\<close>) when
  the whole storage was cleared.
\<close>

record storage_event =
  event_key :: "string option"
  oldValue :: "string option"
  newValue :: "string option"

text \<open>The function handed to \<^verbatim>\<open>then\<close> in \<^verbatim>\<open>_handleStorageEvent\<close>.\<close>

definition restored_callback :: "store \<Rightarrow> jsval \<Rightarrow> store" where
  "restored_callback s data =
     (if \<not> objectsAreEqual data (lastData s)
      then (let s1 = s\<lparr>lastData := data\<rparr>
            in s1\<lparr>triggered := triggered s1 @ [(''sessionDataUpdated'', data)]\<rparr>)
      else s)"

text \<open>
  \<^verbatim>\<open>_handleStorageEvent\<close>, run until the promise's callback has returned. The promise
  that \<^verbatim>\<open>restore\<close> returns is already resolved, so the callback is called with its
  value; no callback is given for a rejected promise. When \<^verbatim>\<open>restore\<close> throws, the
  handler throws.
\<close>

definition handleStorageEvent ::
  "host \<Rightarrow> store \<Rightarrow> world \<Rightarrow> storage_event \<Rightarrow> (jserror + unit) \<times> store \<times> world" where
  "handleStorageEvent h s w e =
     (if event_key e = Some (key s)
      then (case restore h s w of
              (Inl err, s1, w1) \<Rightarrow> (Inl err, s1, w1)
            | (Inr (Resolved data), s1, w1) \<Rightarrow> (Inr (), restored_callback s1 data, w1)
            | (Inr (Rejected err), s1, w1) \<Rightarrow> (Inr (), s1, w1))
      else (Inr (), s, w))"

section \<open>A browser\<close>

text \<open>
  One host, for running the store on concrete inputs: \<^verbatim>\<open>JSON.stringify\<close> and
  \<^verbatim>\<open>JSON.parse\<close> on the values of \<open>jsval\<close>, following ECMAScript's
  \<^verbatim>\<open>SerializeJSONProperty\<close> and the JSON grammar. Strings are byte strings here, so an
  escape \<^verbatim>\<open>\uXXXX\<close> is read up to code point 255; a number with a fraction or an
  exponent is not a value of \<open>jsval\<close> and is not read. The theorems about the store hold
  for every host; this one supplies their concrete instances.
\<close>

subsection \<open>Serialization\<close>

definition dquote :: char where "dquote = CHR 0x22"
definition backslash :: char where "backslash = CHR 0x5C"

definition digit_char :: "nat \<Rightarrow> char" where
  "digit_char d = ''0123456789abcdef'' ! d"

fun show_nat :: "nat \<Rightarrow> string" where
  "show_nat n = (if n < 10 then [digit_char n] else show_nat (n div 10) @ [digit_char (n mod 10)])"

declare show_nat.simps [simp del]

definition show_int :: "int \<Rightarrow> string" where
  "show_int i = (if i < 0 then CHR ''-'' # show_nat (nat (- i)) else show_nat (nat i))"

definition quote_char :: "char \<Rightarrow> string" where
  "quote_char c =
     (if c = dquote then [backslash, dquote]
      else if c = backslash then [backslash, backslash]
      else if c = CHR 0x08 then [backslash, CHR ''b'']
      else if c = CHR 0x09 then [backslash, CHR ''t'']
      else if c = CHR 0x0A then [backslash, CHR ''n'']
      else if c = CHR 0x0C then [backslash, CHR ''f'']
      else if c = CHR 0x0D then [backslash, CHR ''r'']
      else if (of_char c :: nat) < 32
        then [backslash, CHR ''u'', CHR ''0'', CHR ''0'',
              digit_char (of_char c div 16), digit_char (of_char c mod 16)]
      else [c])"

definition quote :: "string \<Rightarrow> string" where
  "quote s = dquote # concat (map quote_char s) @ [dquote]"

fun join :: "string \<Rightarrow> string list \<Rightarrow> string" where
  "join sep [] = []"
| "join sep [x] = x"
| "join sep (x # y # ys) = x @ sep @ join sep (y # ys)"

fun collect :: "(jserror + 'a) list \<Rightarrow> jserror + 'a list" where
  "collect [] = Inr []"
| "collect (Inl e # rs) = Inl e"
| "collect (Inr x # rs) = (case collect rs of Inl e \<Rightarrow> Inl e | Inr xs \<Rightarrow> Inr (x # xs))"

definition element_text :: "string option \<Rightarrow> string" where
  "element_text r = (case r of None \<Rightarrow> ''null'' | Some t \<Rightarrow> t)"

definition member_text :: "string \<times> string option \<Rightarrow> string list" where
  "member_text m = (case m of (k, None) \<Rightarrow> [] | (k, Some t) \<Rightarrow> [quote k @ '':'' @ t])"

definition lift_member :: "string \<times> (jserror + string option) \<Rightarrow> jserror + string \<times> string option" where
  "lift_member m = (case m of (k, Inl e) \<Rightarrow> Inl e | (k, Inr r) \<Rightarrow> Inr (k, r))"

primrec serialize :: "jsval \<Rightarrow> jserror + string option" where
  "serialize JUndefined = Inr None"
| "serialize JNull = Inr (Some ''null'')"
| "serialize (JBool b) = Inr (Some (if b then ''true'' else ''false''))"
| "serialize (JNum n) = Inr (Some (show_int n))"
| "serialize (JBigInt n) = Inl TypeError"
| "serialize (JStr s) = Inr (Some (quote s))"
| "serialize (JArr xs) =
     (case collect (map serialize xs) of
        Inl e \<Rightarrow> Inl e
      | Inr rs \<Rightarrow> Inr (Some (''['' @ join '','' (map element_text rs) @ '']'')))"
| "serialize (JObj ms) =
     (case collect (map lift_member (map (map_prod id serialize) ms)) of
        Inl e \<Rightarrow> Inl e
      | Inr rs \<Rightarrow> Inr (Some (''{'' @ join '','' (concat (map member_text rs)) @ ''}'')))"

subsection \<open>Parsing\<close>

text \<open>
  A recursive-descent parser. The recursion is on a list that is longer than the text,
  which bounds the number of values in it.
\<close>

definition is_ws :: "char \<Rightarrow> bool" where
  "is_ws c = (c = CHR '' '' \<or> c = CHR 0x09 \<or> c = CHR 0x0A \<or> c = CHR 0x0D)"

fun skip_ws :: "string \<Rightarrow> string" where
  "skip_ws [] = []"
| "skip_ws (c # cs) = (if is_ws c then skip_ws cs else c # cs)"

definition hex_val :: "char \<Rightarrow> nat option" where
  "hex_val c =
     (let n = (of_char c :: nat)
      in if 48 \<le> n \<and> n \<le> 57 then Some (n - 48)
         else if 97 \<le> n \<and> n \<le> 102 then Some (n - 87)
         else if 65 \<le> n \<and> n \<le> 70 then Some (n - 55)
         else None)"

definition digit_val :: "char \<Rightarrow> nat option" where
  "digit_val c =
     (let n = (of_char c :: nat) in if 48 \<le> n \<and> n \<le> 57 then Some (n - 48) else None)"

definition unescape :: "char \<Rightarrow> char option" where
  "unescape c =
     (if c = dquote then Some dquote
      else if c = backslash then Some backslash
      else if c = CHR ''/'' then Some (CHR ''/'')
      else if c = CHR ''b'' then Some (CHR 0x08)
      else if c = CHR ''t'' then Some (CHR 0x09)
      else if c = CHR ''n'' then Some (CHR 0x0A)
      else if c = CHR ''f'' then Some (CHR 0x0C)
      else if c = CHR ''r'' then Some (CHR 0x0D)
      else None)"

definition unicode_escape :: "char \<Rightarrow> char \<Rightarrow> char \<Rightarrow> char \<Rightarrow> char option" where
  "unicode_escape a b c d =
     (case (hex_val a, hex_val b, hex_val c, hex_val d) of
        (Some 0, Some 0, Some x, Some y) \<Rightarrow> Some (char_of (16 * x + y))
      | _ \<Rightarrow> None)"

definition cons_fst :: "'a \<Rightarrow> ('a list \<times> 'b) option \<Rightarrow> ('a list \<times> 'b) option" where
  "cons_fst x r = (case r of None \<Rightarrow> None | Some (xs, rest) \<Rightarrow> Some (x # xs, rest))"

fun string_body :: "string \<Rightarrow> (string \<times> string) option" where
  "string_body [] = None"
| "string_body (c # cs) =
     (if c = dquote then Some ([], cs)
      else if c = backslash then
        (case cs of
           [] \<Rightarrow> None
         | d # ds \<Rightarrow>
             if d = CHR ''u'' then
               (case ds of
                  h1 # h2 # h3 # h4 # rest \<Rightarrow>
                    (case unicode_escape h1 h2 h3 h4 of
                       None \<Rightarrow> None
                     | Some x \<Rightarrow> cons_fst x (string_body rest))
                | _ \<Rightarrow> None)
             else (case unescape d of
                     None \<Rightarrow> None
                   | Some x \<Rightarrow> cons_fst x (string_body ds)))
      else if (of_char c :: nat) < 32 then None
      else cons_fst c (string_body cs))"

fun digits :: "nat \<Rightarrow> string \<Rightarrow> nat \<times> string" where
  "digits acc [] = (acc, [])"
| "digits acc (c # cs) =
     (case digit_val c of None \<Rightarrow> (acc, c # cs) | Some d \<Rightarrow> digits (10 * acc + d) cs)"

definition number_end :: "string \<Rightarrow> bool" where
  "number_end rest =
     (case rest of [] \<Rightarrow> True | c # cs \<Rightarrow> c \<noteq> CHR ''.'' \<and> c \<noteq> CHR ''e'' \<and> c \<noteq> CHR ''E'')"

definition natural :: "string \<Rightarrow> (nat \<times> string) option" where
  "natural s =
     (case s of
        [] \<Rightarrow> None
      | c # cs \<Rightarrow>
          (case digit_val c of
             None \<Rightarrow> None
           | Some d \<Rightarrow>
               (let r = (if d = 0 then (0, cs) else digits d cs)
                in if number_end (snd r) then Some r else None)))"

definition number :: "string \<Rightarrow> (jsval \<times> string) option" where
  "number s =
     (case s of
        [] \<Rightarrow> None
      | c # cs \<Rightarrow>
          if c = CHR ''-''
          then (case natural cs of None \<Rightarrow> None | Some (n, rest) \<Rightarrow> Some (JNum (- int n), rest))
          else (case natural s of None \<Rightarrow> None | Some (n, rest) \<Rightarrow> Some (JNum (int n), rest)))"

fun strip_prefix :: "string \<Rightarrow> string \<Rightarrow> string option" where
  "strip_prefix [] s = Some s"
| "strip_prefix (p # ps) [] = None"
| "strip_prefix (p # ps) (c # cs) = (if p = c then strip_prefix ps cs else None)"

definition literal :: "string \<Rightarrow> jsval \<Rightarrow> string \<Rightarrow> (jsval \<times> string) option" where
  "literal name v s = (case strip_prefix name s of None \<Rightarrow> None | Some rest \<Rightarrow> Some (v, rest))"

fun define_property :: "(string \<times> jsval) list \<Rightarrow> string \<Rightarrow> jsval \<Rightarrow> (string \<times> jsval) list" where
  "define_property [] k v = [(k, v)]"
| "define_property ((k', v') # ms) k v =
     (if k' = k then (k, v) # ms else (k', v') # define_property ms k v)"

fun value_at :: "'f list \<Rightarrow> string \<Rightarrow> (jsval \<times> string) option"
  and elements_at :: "'f list \<Rightarrow> jsval list \<Rightarrow> string \<Rightarrow> (jsval \<times> string) option"
  and members_at :: "'f list \<Rightarrow> (string \<times> jsval) list \<Rightarrow> string \<Rightarrow> (jsval \<times> string) option"
where
  "value_at [] s = None"
| "value_at (u # fuel) s =
     (case skip_ws s of
        [] \<Rightarrow> None
      | c # cs \<Rightarrow>
          if c = CHR ''{'' then
            (case skip_ws cs of
               [] \<Rightarrow> None
             | d # ds \<Rightarrow> if d = CHR ''}'' then Some (JObj [], ds) else members_at fuel [] (d # ds))
          else if c = CHR ''['' then
            (case skip_ws cs of
               [] \<Rightarrow> None
             | d # ds \<Rightarrow> if d = CHR '']'' then Some (JArr [], ds) else elements_at fuel [] (d # ds))
          else if c = dquote then
            (case string_body cs of None \<Rightarrow> None | Some (t, rest) \<Rightarrow> Some (JStr t, rest))
          else if c = CHR ''t'' then literal ''true'' (JBool True) (c # cs)
          else if c = CHR ''f'' then literal ''false'' (JBool False) (c # cs)
          else if c = CHR ''n'' then literal ''null'' JNull (c # cs)
          else number (c # cs))"
| "elements_at [] acc s = None"
| "elements_at (u # fuel) acc s =
     (case value_at fuel s of
        None \<Rightarrow> None
      | Some (v, rest) \<Rightarrow>
          (case skip_ws rest of
             [] \<Rightarrow> None
           | c # cs \<Rightarrow>
               if c = CHR '','' then elements_at fuel (acc @ [v]) cs
               else if c = CHR '']'' then Some (JArr (acc @ [v]), cs)
               else None))"
| "members_at [] acc s = None"
| "members_at (u # fuel) acc s =
     (case skip_ws s of
        [] \<Rightarrow> None
      | q # qs \<Rightarrow>
          if q \<noteq> dquote then None
          else
            (case string_body qs of
               None \<Rightarrow> None
             | Some (k, rest) \<Rightarrow>
                 (case skip_ws rest of
                    [] \<Rightarrow> None
                  | c # cs \<Rightarrow>
                      if c \<noteq> CHR '':'' then None
                      else
                        (case value_at fuel cs of
                           None \<Rightarrow> None
                         | Some (v, rest') \<Rightarrow>
                             (case skip_ws rest' of
                                [] \<Rightarrow> None
                              | e # es \<Rightarrow>
                                  if e = CHR '','' then members_at fuel (define_property acc k v) es
                                  else if e = CHR ''}'' then Some (JObj (define_property acc k v), es)
                                  else None)))))"

definition parse_text :: "string \<Rightarrow> jserror + jsval" where
  "parse_text s =
     (case value_at (CHR ''x'' # s) s of
        None \<Rightarrow> Inl SyntaxError
      | Some (v, rest) \<Rightarrow> if skip_ws rest = [] then Inr v else Inl SyntaxError)"

subsection \<open>The host and the initial states\<close>

text \<open>This browser's storage takes an entry of up to 5000000 characters.\<close>

definition browser :: host where
  "browser =
     \<lparr>JSON_stringify = serialize,
      JSON_parse = parse_text,
      storage_accepts = (\<lambda>m k t. length k + length t \<le> 5000000),
      isFastBoot_owner = False\<rparr>"

text \<open>A store created with no properties of its own, and a window with nothing stored.\<close>

definition new_store :: store where
  "new_store =
     \<lparr>key = default_key, isFastBoot = None, boundHandler = None,
      lastData = JUndefined, triggered = []\<rparr>"

definition empty_world :: world where
  "empty_world = \<lparr>storage = Map.empty, listeners = [], calls = []\<rparr>"

text \<open>
  A store whose \<^verbatim>\<open>localStorage\<close> slot holds the text \<open>t\<close>, and the event the window
  sends when the slot \<open>k\<close> was changed elsewhere.
\<close>

definition stored :: "string \<Rightarrow> world" where
  "stored t = empty_world\<lparr>storage := [default_key \<mapsto> t]\<rparr>"

definition storage_changed :: "string \<Rightarrow> storage_event" where
  "storage_changed k = \<lparr>event_key = Some k, oldValue = None, newValue = None\<rparr>"

text \<open>A session with nested structures and an empty mapping inside, and its JSON text.\<close>

definition session :: jsval where
  "session =
     JObj [(''token'', JStr ''abc''),
           (''user'', JObj [(''id'', JNum 7), (''roles'', JArr [JStr ''admin'']),
                            (''meta'', JObj [])])]"

definition session_text :: string where
  \<open>session_text = ''{"token":"abc","user":{"id":7,"roles":["admin"],"meta":{}}}''\<close>

section \<open>JSON-serializable values\<close>

text \<open>
  A value is JSON-serializable on a host when the host's \<^verbatim>\<open>JSON.stringify\<close> gives
  text for it and \<^verbatim>\<open>JSON.parse\<close> reads that text back as a value deep-equal to it.
  Undefined, a BigInt and an object with an undefined property are not.
\<close>

definition json_serializable :: "host \<Rightarrow> jsval \<Rightarrow> bool" where
  "json_serializable h v =
     (case JSON_stringify h v of
        Inr (Some t) \<Rightarrow>
          (case JSON_parse h t of Inr v' \<Rightarrow> objectsAreEqual v' v | Inl e \<Rightarrow> False)
      | _ \<Rightarrow> False)"

section \<open>Evaluation rules\<close>

lemmas store_ops =
  persist_def restore_def clear_def init_def willDestroy_def handleStorageEvent_def
  restored_callback_def not_isFastBoot_def or_empty_def
  localStorage_getItem_def localStorage_setItem_def localStorage_removeItem_def
  window_addEventListener_def window_removeEventListener_def

lemmas browser_eval =
  browser_def new_store_def empty_world_def default_key_def
  parse_text_def literal_def number_def natural_def number_end_def digit_val_def
  hex_val_def unescape_def unicode_escape_def cons_fst_def dquote_def backslash_def is_ws_def
  lift_member_def member_text_def element_text_def quote_def quote_char_def
  show_int_def show_nat.simps digit_char_def

lemmas concrete = stored_def storage_changed_def

lemma objectsAreEqual_object: "objectsAreEqual a (JObj ns) \<Longrightarrow> truthy a"
  by (cases a) simp_all

lemma serialize_session: "JSON_stringify browser session = Inr (Some session_text)"
  by (simp add: session_def session_text_def browser_eval)

lemma parse_session: "JSON_parse browser session_text = Inr session"
  by (simp add: session_def session_text_def browser_eval)

lemma session_eq: "objectsAreEqual session session"
  by (simp add: session_def)

text \<open>
  The scenario of the spec: \<^verbatim>\<open>persist({token: "abc"})\<close> leaves the text
  \<^verbatim>\<open>{"token":"abc"}\<close> in the slot, \<^verbatim>\<open>restore()\<close> resolves with the mapping,
  \<^verbatim>\<open>clear()\<close> leaves the slot absent and \<^verbatim>\<open>restore()\<close> then resolves with the
  empty mapping.
\<close>

lemma scenario_token:
  \<open>(let (r1, s1, w1) = persist browser new_store empty_world (JObj [(''token'', JStr ''abc'')]);
        (r2, s2, w2) = restore browser s1 w1;
        (r3, s3, w3) = clear s2 w2;
        (r4, s4, w4) = restore browser s3 w3
    in storage w1 default_key = Some ''{"token":"abc"}''
       \<and> r2 = Inr (Resolved (JObj [(''token'', JStr ''abc'')]))
       \<and> storage w3 default_key = None
       \<and> r4 = Inr (Resolved (JObj [])))\<close>
  by (simp add: store_ops browser_eval concrete Let_def)

section \<open>Round trip\<close>

text \<open>
  Claim C1. For every JSON-serializable mapping \<open>M\<close> (the empty mapping and nested
  structures included), \<^verbatim>\<open>persist(M)\<close> followed by \<^verbatim>\<open>restore()\<close> resolves with a
  value deep-equal to \<open>M\<close>. The mapping is any object \<open>JObj ms\<close>, on any host on which it
  is JSON-serializable and whose storage takes the write of its text: \<^verbatim>\<open>persist\<close>
  resolves, and \<^verbatim>\<open>restore\<close> on the store and window it leaves resolves with a value
  that \<^verbatim>\<open>objectsAreEqual\<close> accepts against \<open>M\<close>.
\<close>

theorem persist_restore_roundtrip:
  assumes "json_serializable h (JObj ms)"
    and "JSON_stringify h (JObj ms) = Inr (Some t)"
    and "storage_accepts h (storage w) (key s) t"
    and "persist h s w (JObj ms) = (r, s1, w1)"
  shows "r = Inr (Resolved JUndefined)
         \<and> (\<exists>v. fst (restore h s1 w1) = Inr (Resolved v) \<and> objectsAreEqual v (JObj ms))"
proof -
  from assms(1,2) obtain v where v: "JSON_parse h t = Inr v" "objectsAreEqual v (JObj ms)"
    by (auto simp: json_serializable_def split: sum.splits)
  from v(2) have "truthy v" by (rule objectsAreEqual_object)
  with assms(2-4) v show ?thesis
    by (auto simp: store_ops Let_def)
qed

text \<open>The round trip of \<open>session\<close> in the browser, from a new store and an empty storage.\<close>

theorem persist_restore_roundtrip_witness:
  "json_serializable browser session
   \<and> JSON_stringify browser session = Inr (Some session_text)
   \<and> storage_accepts browser (storage empty_world) (key new_store) session_text
   \<and> fst (persist browser new_store empty_world session) = Inr (Resolved JUndefined)
   \<and> (\<exists>v. fst (restore browser (fst (snd (persist browser new_store empty_world session)))
                  (snd (snd (persist browser new_store empty_world session)))) = Inr (Resolved v)
          \<and> objectsAreEqual v session)"
proof -
  let ?M = "JObj [(''token'', JStr ''abc''),
           (''user'', JObj [(''id'', JNum 7), (''roles'', JArr [JStr ''admin'']),
                            (''meta'', JObj [])])]"
  have a: "json_serializable browser ?M"
    using serialize_session parse_session session_eq
    by (simp add: json_serializable_def session_def)
  have b: "JSON_stringify browser ?M = Inr (Some session_text)"
    using serialize_session by (simp add: session_def)
  have c: "storage_accepts browser (storage empty_world) (key new_store) session_text"
    by (simp add: browser_def session_text_def new_store_def default_key_def)
  have d: "persist browser new_store empty_world ?M
           = (fst (persist browser new_store empty_world session),
              fst (snd (persist browser new_store empty_world session)),
              snd (snd (persist browser new_store empty_world session)))"
    by (simp add: session_def)
  from persist_restore_roundtrip [OF a b c d] a b c show ?thesis
    by (simp add: session_def)
qed

section \<open>The change notification\<close>

text \<open>
  Claim C2. A storage change notification arrives for the configured key, and
  \<^verbatim>\<open>restore\<close> resolves with \<open>data\<close>. If \<open>data\<close> deep-equals the snapshot, no
  \<^verbatim>\<open>sessionDataUpdated\<close> event is triggered and the snapshot is unchanged; if it
  differs, exactly one \<^verbatim>\<open>sessionDataUpdated\<close> event is triggered, carrying \<open>data\<close>,
  and the snapshot becomes \<open>data\<close>.
\<close>

theorem handleStorageEvent_dedup:
  assumes "event_key e = Some (key s)"
    and "restore h s w = (Inr (Resolved data), s1, w1)"
    and "handleStorageEvent h s w e = (r, s', w')"
  shows "if objectsAreEqual data (lastData s)
         then triggered s' = triggered s \<and> lastData s' = lastData s
         else triggered s' = triggered s @ [(''sessionDataUpdated'', data)] \<and> lastData s' = data"
  using assms
  by (auto simp: store_ops Let_def split: sum.splits option.splits)

text \<open>
  The spec's example, snapshot \<^verbatim>\<open>{a:1}\<close> while the storage holds \<^verbatim>\<open>{a:2}\<close>, and a
  snapshot that differs from the stored mapping in the order of its keys only.
\<close>

theorem handleStorageEvent_dedup_witness:
  \<open>(let s = new_store\<lparr>lastData := JObj [(''a'', JNum 1)]\<rparr>;
        w = stored ''{"a":2}'';
        e = storage_changed default_key;
        s' = fst (snd (handleStorageEvent browser s w e))
    in event_key e = Some (key s)
       \<and> fst (restore browser s w) = Inr (Resolved (JObj [(''a'', JNum 2)]))
       \<and> \<not> objectsAreEqual (JObj [(''a'', JNum 2)]) (lastData s)
       \<and> triggered s' = [(''sessionDataUpdated'', JObj [(''a'', JNum 2)])]
       \<and> lastData s' = JObj [(''a'', JNum 2)])
   \<and> (let s = new_store\<lparr>lastData := JObj [(''b'', JNull), (''a'', JNum 1)]\<rparr>;
          w = stored ''{"a":1,"b":null}'';
          e = storage_changed default_key;
          s' = fst (snd (handleStorageEvent browser s w e))
      in event_key e = Some (key s)
         \<and> fst (restore browser s w) = Inr (Resolved (JObj [(''a'', JNum 1), (''b'', JNull)]))
         \<and> objectsAreEqual (JObj [(''a'', JNum 1), (''b'', JNull)]) (lastData s)
         \<and> triggered s' = []
         \<and> lastData s' = JObj [(''b'', JNull), (''a'', JNum 1)])\<close>
proof -
  let ?e = "storage_changed default_key"
  let ?s = "new_store\<lparr>lastData := JObj [(''a'', JNum 1)]\<rparr>"
  let ?w = \<open>stored ''{"a":2}''\<close>
  let ?t = "new_store\<lparr>lastData := JObj [(''b'', JNull), (''a'', JNum 1)]\<rparr>"
  let ?v = \<open>stored ''{"a":1,"b":null}''\<close>
  have a: "event_key ?e = Some (key ?s)" "event_key ?e = Some (key ?t)"
    by (simp_all add: storage_changed_def new_store_def)
  have b: "restore browser ?s ?w
             = (Inr (Resolved (JObj [(''a'', JNum 2)])), ?s, ?w\<lparr>calls := [GetItem default_key]\<rparr>)"
    by (simp add: store_ops browser_eval concrete)
  have c: "restore browser ?t ?v
             = (Inr (Resolved (JObj [(''a'', JNum 1), (''b'', JNull)])), ?t,
                ?v\<lparr>calls := [GetItem default_key]\<rparr>)"
    by (simp add: store_ops browser_eval concrete)
  have d: "handleStorageEvent browser ?s ?w ?e
             = (fst (handleStorageEvent browser ?s ?w ?e),
                fst (snd (handleStorageEvent browser ?s ?w ?e)),
                snd (snd (handleStorageEvent browser ?s ?w ?e)))"
    by simp
  have e: "handleStorageEvent browser ?t ?v ?e
             = (fst (handleStorageEvent browser ?t ?v ?e),
                fst (snd (handleStorageEvent browser ?t ?v ?e)),
                snd (snd (handleStorageEvent browser ?t ?v ?e)))"
    by simp
  have f: "\<not> objectsAreEqual (JObj [(''a'', JNum 2)]) (lastData ?s)"
    by simp
  have g: "objectsAreEqual (JObj [(''a'', JNum 1), (''b'', JNull)]) (lastData ?t)"
    by simp
  have h: "triggered ?s = []" "triggered ?t = []"
          "lastData ?t = JObj [(''b'', JNull), (''a'', JNum 1)]"
    by (simp_all add: new_store_def)
  from handleStorageEvent_dedup [OF a(1) b d] f h(1)
  have 1: "triggered (fst (snd (handleStorageEvent browser ?s ?w ?e)))
          = [(''sessionDataUpdated'', JObj [(''a'', JNum 2)])]
        \<and> lastData (fst (snd (handleStorageEvent browser ?s ?w ?e))) = JObj [(''a'', JNum 2)]"
    by simp
  from handleStorageEvent_dedup [OF a(2) c e] g h(2,3)
  have 2: "triggered (fst (snd (handleStorageEvent browser ?t ?v ?e))) = []
        \<and> lastData (fst (snd (handleStorageEvent browser ?t ?v ?e)))
            = JObj [(''b'', JNull), (''a'', JNum 1)]"
    by simp
  from 1 2 a b c f g show ?thesis
    unfolding Let_def by simp
qed

text \<open>
  Claim C8. For every storage change notification whose key differs from the configured
  key (a null key included), the handler returns with the store and the window as they
  were: no call of \<^verbatim>\<open>localStorage\<close> is logged, so nothing was restored, the snapshot
  is unchanged and no event is triggered.
\<close>

theorem handleStorageEvent_other_key:
  assumes "event_key e \<noteq> Some (key s)"
  shows "handleStorageEvent h s w e = (Inr (), s, w)"
  using assms by (simp add: handleStorageEvent_def)

theorem handleStorageEvent_other_key_witness:
  "event_key (storage_changed ''theme'') \<noteq> Some (key new_store)
   \<and> handleStorageEvent browser new_store (stored ''{}'') (storage_changed ''theme'')
       = (Inr (), new_store, stored ''{}'')"
proof -
  have a: "event_key (storage_changed ''theme'') \<noteq> Some (key new_store)"
    by (simp add: storage_changed_def new_store_def default_key_def)
  from handleStorageEvent_other_key [OF a] a show ?thesis by simp
qed

section \<open>Restoring\<close>

text \<open>
  Claim C6. For every storage in which the slot of the configured key is absent,
  \<^verbatim>\<open>restore()\<close> resolves with the empty mapping and throws nothing. \<^verbatim>\<open>getItem\<close>
  gives null, \<^verbatim>\<open>JSON.parse\<close> is handed the text \<^verbatim>\<open>null\<close>, which every JSON parser
  reads as null, and \<^verbatim>\<open>null || {}\<close> is the empty mapping.
\<close>

theorem restore_absent:
  assumes "storage w (key s) = None" and "JSON_parse h ''null'' = Inr JNull"
  shows "restore h s w =
           (Inr (Resolved (JObj [])), s, w\<lparr>calls := calls w @ [GetItem (key s)]\<rparr>)"
  using assms by (simp add: store_ops)

theorem restore_absent_witness:
  "storage empty_world (key new_store) = None \<and> JSON_parse browser ''null'' = Inr JNull
   \<and> restore browser new_store empty_world =
       (Inr (Resolved (JObj [])), new_store, empty_world\<lparr>calls := [GetItem default_key]\<rparr>)"
proof -
  have a: "storage empty_world (key new_store) = None" by (simp add: empty_world_def)
  have b: "JSON_parse browser ''null'' = Inr JNull" by (simp add: browser_eval)
  from restore_absent [OF a b] a b show ?thesis
    by (simp add: empty_world_def new_store_def)
qed

text \<open>
  Claim C3. The slot holds the truncated text \<^verbatim>\<open>{"token":\<close>. \<^verbatim>\<open>JSON.parse\<close> throws a
  SyntaxError while the argument of \<^verbatim>\<open>RSVP.resolve\<close> is evaluated, so \<^verbatim>\<open>restore\<close>
  itself throws: the caller gets no promise, neither a resolved nor a rejected one.
\<close>

theorem restore_malformed_throws:
  \<open>JSON_parse browser ''{"token":'' = Inl SyntaxError
   \<and> restore browser new_store (stored ''{"token":'')
       = (Inl SyntaxError, new_store, (stored ''{"token":'')\<lparr>calls := [GetItem default_key]\<rparr>)
   \<and> fst (restore browser new_store (stored ''{"token":'')) \<noteq> Inr (Rejected SyntaxError)\<close>
  by (simp add: store_ops browser_eval concrete)

text \<open>
  On every host: a text that \<^verbatim>\<open>JSON.parse\<close> refuses makes \<^verbatim>\<open>restore\<close> throw the
  parser's error, and no call of \<^verbatim>\<open>restore\<close> returns a rejected promise.
\<close>

lemma restore_parse_error:
  "storage w (key s) = Some t \<Longrightarrow> JSON_parse h t = Inl err \<Longrightarrow> fst (restore h s w) = Inl err"
  by (simp add: store_ops)

lemma restore_never_rejects: "fst (restore h s w) \<noteq> Inr (Rejected err)"
  by (simp add: store_ops split: sum.splits option.splits)

section \<open>Persisting\<close>

text \<open>
  Claim C7, as amended. \<^verbatim>\<open>persist(data)\<close> sets the snapshot to the argument as given
  (undefined stays undefined; it is not the JSON text) and, when serialization and the
  write succeed, writes into the slot of the configured key the JSON serialization of
  \<^verbatim>\<open>data || {}\<close>: of \<open>data\<close> when it is truthy, of the empty mapping when it is any
  falsy value (undefined, null, false, 0, 0n or the empty string). It resolves with
  undefined.
\<close>

theorem persist_effect:
  assumes "JSON_stringify h (if truthy data then data else JObj []) = Inr (Some t)"
    and "storage_accepts h (storage w) (key s) t"
  shows "persist h s w data =
           (Inr (Resolved JUndefined), s\<lparr>lastData := data\<rparr>,
            w\<lparr>calls := calls w @ [SetItem (key s) t], storage := (storage w)(key s \<mapsto> t)\<rparr>)"
  using assms by (simp add: store_ops Let_def)

theorem persist_effect_witness:
  \<open>JSON_stringify browser
      (if truthy (JObj [(''token'', JStr ''abc'')]) then JObj [(''token'', JStr ''abc'')] else JObj [])
     = Inr (Some ''{"token":"abc"}'')
   \<and> storage_accepts browser (storage empty_world) (key new_store) ''{"token":"abc"}''
   \<and> persist browser new_store empty_world (JObj [(''token'', JStr ''abc'')])
       = (Inr (Resolved JUndefined), new_store\<lparr>lastData := JObj [(''token'', JStr ''abc'')]\<rparr>,
          empty_world\<lparr>calls := [SetItem default_key ''{"token":"abc"}''],
                       storage := [default_key \<mapsto> ''{"token":"abc"}'']\<rparr>)\<close>
proof -
  have a: \<open>JSON_stringify browser
      (if truthy (JObj [(''token'', JStr ''abc'')]) then JObj [(''token'', JStr ''abc'')] else JObj [])
     = Inr (Some ''{"token":"abc"}'')\<close>
    by (simp add: browser_eval)
  have b: \<open>storage_accepts browser (storage empty_world) (key new_store) ''{"token":"abc"}''\<close>
    by (simp add: browser_def new_store_def default_key_def)
  from persist_effect [OF a b] a b show ?thesis
    by (simp add: empty_world_def new_store_def)
qed

text \<open>
  Claim C7 as stated fails on a defined falsy argument: the JSON serialization of null is
  the text \<^verbatim>\<open>null\<close> and that of 0 is \<^verbatim>\<open>0\<close>, but \<^verbatim>\<open>persist(null)\<close> and
  \<^verbatim>\<open>persist(0)\<close> write \<^verbatim>\<open>{}\<close>.
\<close>

theorem persist_falsy_counterexample:
  \<open>JSON_stringify browser JNull = Inr (Some ''null'')
   \<and> storage (snd (snd (persist browser new_store empty_world JNull))) (key new_store) = Some ''{}''
   \<and> JSON_stringify browser (JNum 0) = Inr (Some ''0'')
   \<and> storage (snd (snd (persist browser new_store empty_world (JNum 0)))) (key new_store)
       = Some ''{}''\<close>
  by (simp add: store_ops browser_eval concrete Let_def)

text \<open>
  Claim C10. \<^verbatim>\<open>persist\<close> is not atomic with respect to a failing serialization: the
  snapshot is assigned before \<^verbatim>\<open>JSON.stringify\<close> is called, so when that throws, the
  store holds the new snapshot while the window, and with it the slot, is as it was (no
  call of \<^verbatim>\<open>localStorage\<close> is made).
\<close>

theorem persist_not_atomic:
  assumes "JSON_stringify h (if truthy data then data else JObj []) = Inl err"
  shows "persist h s w data = (Inl err, s\<lparr>lastData := data\<rparr>, w)"
  using assms by (simp add: store_ops)

text \<open>A mapping with a BigInt in it, which \<^verbatim>\<open>JSON.stringify\<close> refuses with a TypeError.\<close>

theorem persist_not_atomic_witness:
  "JSON_stringify browser
     (if truthy (JObj [(''n'', JBigInt 10)]) then JObj [(''n'', JBigInt 10)] else JObj [])
     = Inl TypeError
   \<and> persist browser new_store (stored ''{}'') (JObj [(''n'', JBigInt 10)])
       = (Inl TypeError, new_store\<lparr>lastData := JObj [(''n'', JBigInt 10)]\<rparr>, stored ''{}'')"
proof -
  have a: "JSON_stringify browser
     (if truthy (JObj [(''n'', JBigInt 10)]) then JObj [(''n'', JBigInt 10)] else JObj [])
     = Inl TypeError"
    by (simp add: browser_eval)
  from persist_not_atomic [OF a] a show ?thesis by simp
qed

section \<open>Clearing\<close>

text \<open>
  Claim C9. \<^verbatim>\<open>clear()\<close> is idempotent: of two calls in succession, each resolves and
  leaves the slot of the configured key absent and the snapshot the empty mapping, and
  the second, which finds the key absent already, changes neither the storage nor the
  store.
\<close>

theorem clear_idempotent:
  "(case clear s w of
      (r1, s1, w1) \<Rightarrow>
        (case clear s1 w1 of
           (r2, s2, w2) \<Rightarrow>
             r1 = Inr (Resolved JUndefined) \<and> r2 = Inr (Resolved JUndefined)
             \<and> storage w1 (key s) = None \<and> storage w2 (key s) = None
             \<and> storage w2 = storage w1
             \<and> lastData s1 = JObj [] \<and> lastData s2 = JObj [] \<and> s2 = s1))"
  by (simp add: store_ops Let_def)

section \<open>The snapshot\<close>

text \<open>
  Claim C4, as amended. The snapshot is not assigned by \<^verbatim>\<open>init\<close>, which leaves it as
  the object was created; every call of \<^verbatim>\<open>persist\<close> overwrites it with the argument;
  \<^verbatim>\<open>restore\<close> leaves the store, and so the snapshot, as it was; \<^verbatim>\<open>clear\<close> resets it
  to the empty mapping.
\<close>

theorem snapshot_lifecycle:
  "lastData (fst (init h f s w)) = lastData s
   \<and> lastData (fst (snd (persist h s w data))) = data
   \<and> fst (snd (restore h s w)) = s
   \<and> lastData (fst (snd (clear s w))) = JObj []"
  by (simp add: store_ops Let_def split: sum.splits option.splits prod.splits)

text \<open>
  Claim C4 as stated fails on \<^verbatim>\<open>restore\<close>: after \<^verbatim>\<open>clear\<close> the snapshot is the empty
  mapping; another tab writes \<^verbatim>\<open>{"a":1}\<close>; \<^verbatim>\<open>restore()\<close> resolves with \<^verbatim>\<open>{a:1}\<close> and
  the snapshot is still the empty mapping.
\<close>

theorem restore_keeps_snapshot_counterexample:
  \<open>(let s = fst (snd (clear new_store empty_world));
        w = stored ''{"a":1}''
    in lastData s = JObj []
       \<and> fst (restore browser s w) = Inr (Resolved (JObj [(''a'', JNum 1)]))
       \<and> lastData (fst (snd (restore browser s w))) = JObj []
       \<and> lastData (fst (snd (restore browser s w))) \<noteq> JObj [(''a'', JNum 1)])\<close>
  by (simp add: store_ops browser_eval concrete Let_def)

section \<open>FastBoot\<close>

text \<open>
  Claim C5, as amended. When \<^verbatim>\<open>init\<close> leaves the flag \<^verbatim>\<open>_isFastBoot\<close> true, it
  registers no listener and \<^verbatim>\<open>willDestroy\<close> removes none, neither calling the window.
  \<^verbatim>\<open>persist\<close>, \<^verbatim>\<open>restore\<close> and \<^verbatim>\<open>clear\<close> do not read the flag: \<^verbatim>\<open>restore\<close> calls
  \<^verbatim>\<open>getItem\<close>, \<^verbatim>\<open>clear\<close> calls \<^verbatim>\<open>removeItem\<close> and \<^verbatim>\<open>persist\<close>, once the data is
  serialized, calls \<^verbatim>\<open>setItem\<close>, each on the configured key.
\<close>

theorem fastboot_skips_listener_only:
  assumes "init h f s w = (s', w')" and "isFastBoot s' = Some True"
  shows "w' = w \<and> willDestroy s' w2 = w2
         \<and> calls (snd (snd (restore h s' w2))) = calls w2 @ [GetItem (key s')]
         \<and> calls (snd (snd (clear s' w2))) = calls w2 @ [RemoveItem (key s')]
         \<and> (JSON_stringify h (if truthy data then data else JObj []) = Inr (Some t)
              \<longrightarrow> calls (snd (snd (persist h s' w2 data))) = calls w2 @ [SetItem (key s') t])"
  using assms
  by (auto simp: store_ops Let_def split: sum.splits option.splits prod.splits if_splits)

theorem fastboot_skips_listener_only_witness:
  \<open>(let h = browser\<lparr>isFastBoot_owner := True\<rparr>;
        s = fst (init h 0 new_store empty_world);
        w = stored ''{"a":1}''
    in isFastBoot s = Some True
       \<and> snd (init h 0 new_store empty_world) = empty_world
       \<and> willDestroy s w = w
       \<and> calls (snd (snd (restore h s w))) = calls w @ [GetItem (key s)]
       \<and> calls (snd (snd (clear s w))) = calls w @ [RemoveItem (key s)]
       \<and> JSON_stringify h (if truthy JNull then JNull else JObj []) = Inr (Some ''{}'')
       \<and> calls (snd (snd (persist h s w JNull))) = calls w @ [SetItem (key s) ''{}''])\<close>
proof -
  let ?h = "browser\<lparr>isFastBoot_owner := True\<rparr>"
  let ?s = "fst (init ?h 0 new_store empty_world)"
  let ?w = \<open>stored ''{"a":1}''\<close>
  have a: "init ?h 0 new_store empty_world = (?s, snd (init ?h 0 new_store empty_world))"
    by simp
  have b: "isFastBoot ?s = Some True"
    by (simp add: init_def new_store_def not_isFastBoot_def Let_def)
  have c: "JSON_stringify ?h (if truthy JNull then JNull else JObj []) = Inr (Some ''{}'')"
    by (simp add: browser_eval)
  from fastboot_skips_listener_only [OF a b, of ?w JNull "''{}''"] b c show ?thesis
    unfolding Let_def by simp
qed

text \<open>
  Claim C5 as stated fails on \<^verbatim>\<open>persist\<close>, \<^verbatim>\<open>restore\<close> and \<^verbatim>\<open>clear\<close>: a store
  created with \<^verbatim>\<open>_isFastBoot: true\<close> registers no listener, and each of the three calls
  \<^verbatim>\<open>localStorage\<close> all the same; the slot is written, read and deleted. So it is when
  the flag comes from \<^verbatim>\<open>isFastBoot(getOwner(this))\<close>.
\<close>

theorem fastboot_storage_access_counterexample:
  \<open>(let s = fst (init browser 0 (new_store\<lparr>isFastBoot := Some True\<rparr>) empty_world);
        w = stored ''{"a":1}''
    in isFastBoot s = Some True
       \<and> snd (init browser 0 (new_store\<lparr>isFastBoot := Some True\<rparr>) empty_world) = empty_world
       \<and> calls (snd (snd (persist browser s w (JObj [(''a'', JNum 2)]))))
            = [SetItem default_key ''{"a":2}'']
       \<and> storage (snd (snd (persist browser s w (JObj [(''a'', JNum 2)])))) default_key
            = Some ''{"a":2}''
       \<and> calls (snd (snd (restore browser s w))) = [GetItem default_key]
       \<and> fst (restore browser s w) = Inr (Resolved (JObj [(''a'', JNum 1)]))
       \<and> calls (snd (snd (clear s w))) = [RemoveItem default_key]
       \<and> storage (snd (snd (clear s w))) default_key = None)
   \<and> (let h = browser\<lparr>isFastBoot_owner := True\<rparr>;
          s = fst (init h 0 new_store empty_world)
      in isFastBoot s = Some True
         \<and> calls (snd (snd (persist h s empty_world (JObj [(''a'', JNum 2)]))))
              = [SetItem default_key ''{"a":2}''])\<close>
  by (simp add: store_ops browser_eval concrete Let_def)

end
